theory Spec2Isabelle
  imports Complex_Main
begin

section \<open>InstagramService: the hourly request budget\<close>

text \<open>
  The four fields the constructor sets up for rate limiting
  (\<^verbatim>\<open>error-handler.service.js\<close>, second module, lines 469-473). Times are
  \<^verbatim>\<open>Date.now()\<close> readings in milliseconds.
\<close>

record instagram_service =
  requestCount :: nat
  requestWindowStart :: int
  maxRequestsPerHour :: nat
  requestWindow :: int

definition InstagramService_new :: "int \<Rightarrow> instagram_service" where
  "InstagramService_new now =
     \<lparr>requestCount = 0, requestWindowStart = now,
      maxRequestsPerHour = 200, requestWindow = 60 * 60 * 1000\<rparr>"

text \<open>
  The only error \<^verbatim>\<open>_checkRateLimit\<close> throws:
  \<^verbatim>\<open>Error(`Instagram rate limit reached. Please wait ${minutesUntilReset} minutes.`)\<close>;
  the constructor carries \<^verbatim>\<open>minutesUntilReset\<close>.
\<close>

datatype service_error = RateLimitReached int

text \<open>
  \<^verbatim>\<open>_checkRateLimit()\<close>, lines 584-602, with the clock reading passed in.
  The result is the thrown error or the returned \<^verbatim>\<open>true\<close>, and the service
  after the call.
\<close>

definition checkRateLimit ::
  "int \<Rightarrow> instagram_service \<Rightarrow> (service_error + bool) \<times> instagram_service" where
  "checkRateLimit now this =
     (let this1 = (if now - requestWindowStart this > requestWindow this
                   then this\<lparr>requestCount := 0, requestWindowStart := now\<rparr>
                   else this)
      in if requestCount this1 \<ge> maxRequestsPerHour this1
         then (let timeUntilReset = requestWindow this1 - (now - requestWindowStart this1);
                   minutesUntilReset = \<lceil>(of_int timeUntilReset :: rat) / 60000\<rceil>
               in (Inl (RateLimitReached minutesUntilReset), this1))
         else (Inr True, this1\<lparr>requestCount := requestCount this1 + 1\<rparr>))"

text \<open>A sequence of calls, one per clock reading, each on the service the previous left.\<close>

fun checkRateLimit_calls ::
  "int list \<Rightarrow> instagram_service \<Rightarrow> (service_error + bool) list \<times> instagram_service" where
  "checkRateLimit_calls [] this = ([], this)"
| "checkRateLimit_calls (now # nows) this =
     (case checkRateLimit now this of
        (r, this1) \<Rightarrow> (case checkRateLimit_calls nows this1 of
                         (rs, this2) \<Rightarrow> (r # rs, this2)))"

section \<open>JavaScript strings and numbers\<close>

text \<open>
  A JavaScript string is modelled as a \<^typ>\<open>string\<close> whose characters are the
  UTF-16 code units below 256. \<^verbatim>\<open>toLowerCase\<close> maps \<^verbatim>\<open>A-Z\<close> and the
  Latin-1 capitals onto their small letters and leaves every other unit alone.
\<close>

definition lower_char :: "char \<Rightarrow> char" where
  "lower_char c =
     (let n = (of_char c :: nat)
      in if (65 \<le> n \<and> n \<le> 90) \<or> (192 \<le> n \<and> n \<le> 222 \<and> n \<noteq> 215)
         then char_of (n + 32) else c)"

definition toLowerCase :: "string \<Rightarrow> string" where
  "toLowerCase s = map lower_char s"

fun startsWith :: "string \<Rightarrow> string \<Rightarrow> bool" where
  "startsWith s [] = True"
| "startsWith [] (p # ps) = False"
| "startsWith (c # cs) (p # ps) = (c = p \<and> startsWith cs ps)"

text \<open>\<^verbatim>\<open>String.prototype.includes\<close>: the second string occurs somewhere in the first.\<close>

fun includes_str :: "string \<Rightarrow> string \<Rightarrow> bool" where
  "includes_str [] sub = (sub = [])"
| "includes_str (c # cs) sub = (startsWith (c # cs) sub \<or> includes_str cs sub)"

text \<open>
  A JavaScript number as the code meets it here: an integer (milliseconds, seconds, a
  status code) or \<^verbatim>\<open>NaN\<close>. Integers are unbounded; the doubles of the source
  agree with them below \<open>2^53\<close>.
\<close>

datatype js_number = Num int | NaN

fun js_times :: "js_number \<Rightarrow> int \<Rightarrow> js_number" where
  "js_times (Num a) k = Num (a * k)"
| "js_times NaN k = NaN"

text \<open>Truthiness of a possibly missing number: \<^verbatim>\<open>undefined\<close>, \<^verbatim>\<open>null\<close>, \<^verbatim>\<open>0\<close> and \<^verbatim>\<open>NaN\<close> are falsy.\<close>

fun truthy_number :: "js_number option \<Rightarrow> bool" where
  "truthy_number (Some (Num n)) = (n \<noteq> 0)"
| "truthy_number (Some NaN) = False"
| "truthy_number None = False"

definition isWhiteSpace :: "char \<Rightarrow> bool" where
  "isWhiteSpace c = ((of_char c :: nat) \<in> {9, 10, 11, 12, 13, 32, 160})"

definition isDigit :: "char \<Rightarrow> bool" where
  "isDigit c = (48 \<le> (of_char c :: nat) \<and> (of_char c :: nat) \<le> 57)"

text \<open>The value of a character as a digit in the given radix (10 or 16), if it is one.\<close>

definition digitValue :: "nat \<Rightarrow> char \<Rightarrow> nat option" where
  "digitValue radix c =
     (let n = (of_char c :: nat)
      in if 48 \<le> n \<and> n \<le> 57 then Some (n - 48)
         else if radix = 16 \<and> 97 \<le> n \<and> n \<le> 102 then Some (n - 87)
         else if radix = 16 \<and> 65 \<le> n \<and> n \<le> 70 then Some (n - 55)
         else None)"

fun digitsValue :: "nat \<Rightarrow> nat \<Rightarrow> string \<Rightarrow> nat" where
  "digitsValue radix acc [] = acc"
| "digitsValue radix acc (c # cs) =
     digitsValue radix (acc * radix + (case digitValue radix c of Some d \<Rightarrow> d | None \<Rightarrow> 0)) cs"

text \<open>
  \<^verbatim>\<open>parseInt(string)\<close> with no radix argument: leading white space is skipped, a
  sign is read, a \<^verbatim>\<open>0x\<close> prefix selects radix 16, and the longest run of digits is
  the value; no digit at all gives \<^verbatim>\<open>NaN\<close>.
\<close>

definition parseInt :: "string \<Rightarrow> js_number" where
  "parseInt str =
     (let s = dropWhile isWhiteSpace str;
          sign = (if startsWith s ''-'' then - 1 else (1 :: int));
          s1 = (if startsWith s ''-'' \<or> startsWith s ''+'' then tl s else s);
          hex = (startsWith s1 ''0x'' \<or> startsWith s1 ''0X'');
          radix = (if hex then 16 else 10);
          s2 = (if hex then drop 2 s1 else s1);
          ds = takeWhile (\<lambda>c. digitValue radix c \<noteq> None) s2
      in if ds = [] then NaN else Num (sign * int (digitsValue radix 0 ds)))"

text \<open>
  The regular expression \<^verbatim>\<open>/(\d+)\s*(minute|second|hour)/i\<close> of
  \<^verbatim>\<open>extractRetryAfter\<close>. \<^verbatim>\<open>retry_phrase_here\<close> is a match that starts at the head
  of the string: the whole run of digits, any white space, then one of the three words
  in either case. Giving digits or white space back cannot help (the next character
  would again be a digit or white space), so the greedy reading is the only one.
  \<^verbatim>\<open>retry_phrase\<close> is \<^verbatim>\<open>String.prototype.match\<close>: the leftmost start that matches,
  with the two captured groups.
\<close>

definition unit_word :: "string \<Rightarrow> string option" where
  "unit_word s =
     (if startsWith (toLowerCase s) ''minute'' then Some (take 6 s)
      else if startsWith (toLowerCase s) ''second'' then Some (take 6 s)
      else if startsWith (toLowerCase s) ''hour'' then Some (take 4 s)
      else None)"

definition retry_phrase_here :: "string \<Rightarrow> (string \<times> string) option" where
  "retry_phrase_here s =
     (let ds = takeWhile isDigit s
      in if ds = [] then None
         else (case unit_word (dropWhile isWhiteSpace (dropWhile isDigit s)) of
                 Some u \<Rightarrow> Some (ds, u)
               | None \<Rightarrow> None))"

fun retry_phrase :: "string \<Rightarrow> (string \<times> string) option" where
  "retry_phrase [] = None"
| "retry_phrase (c # cs) =
     (case retry_phrase_here (c # cs) of
        Some m \<Rightarrow> Some m
      | None \<Rightarrow> retry_phrase cs)"

section \<open>The error classes\<close>

text \<open>
  \<^verbatim>\<open>AutomationError\<close> and its five subclasses (lines 8-70). An error object is a
  record of the properties the handler reads; \<^verbatim>\<open>cls\<close> is the custom class the object
  was constructed from, \<^verbatim>\<open>None\<close> for a plain \<^verbatim>\<open>Error\<close> raised by anything else.
  \<^verbatim>\<open>originalError\<close> is \<^verbatim>\<open>details.originalError\<close>. A property the object does not
  have is \<^verbatim>\<open>None\<close>.
\<close>

datatype error_class =
  AutomationError | AuthenticationError | RateLimitError | NetworkError | APIError
  | ValidationError

text \<open>\<^verbatim>\<open>this.constructor.name\<close>.\<close>

fun class_name :: "error_class \<Rightarrow> string" where
  "class_name AutomationError = ''AutomationError''"
| "class_name AuthenticationError = ''AuthenticationError''"
| "class_name RateLimitError = ''RateLimitError''"
| "class_name NetworkError = ''NetworkError''"
| "class_name APIError = ''APIError''"
| "class_name ValidationError = ''ValidationError''"

record js_error =
  cls :: "error_class option"
  name :: string
  message :: string
  originalError :: "string option"
  code :: "string option"
  recoverable :: "bool option"
  timestamp :: "nat option"
  retryAfter :: "js_number option"
  statusCode :: "int option"
  headers_retry_after :: "string option"

text \<open>\<^verbatim>\<open>error instanceof C\<close>: every custom class is a subclass of \<^verbatim>\<open>AutomationError\<close>.\<close>

definition instanceof :: "js_error \<Rightarrow> error_class \<Rightarrow> bool" where
  "instanceof error c =
     (case cls error of None \<Rightarrow> False | Some d \<Rightarrow> c = AutomationError \<or> d = c)"

text \<open>
  The constructors. \<^verbatim>\<open>now\<close> is the clock reading behind
  \<^verbatim>\<open>new Date().toISOString()\<close>; \<^verbatim>\<open>orig\<close> is the \<^verbatim>\<open>originalError\<close> of the
  \<^verbatim>\<open>details\<close> argument.
\<close>

definition AutomationError_new ::
  "nat \<Rightarrow> error_class \<Rightarrow> string \<Rightarrow> string \<Rightarrow> bool \<Rightarrow> js_error" where
  "AutomationError_new now c msg cd rec =
     \<lparr>cls = Some c, name = class_name c, message = msg, originalError = None, code = Some cd,
      recoverable = Some rec, timestamp = Some now, retryAfter = None,
      statusCode = None, headers_retry_after = None\<rparr>"

definition AuthenticationError_new :: "nat \<Rightarrow> string \<Rightarrow> string option \<Rightarrow> js_error" where
  "AuthenticationError_new now msg orig =
     (AutomationError_new now AuthenticationError msg ''AUTH_ERROR'' False)
       \<lparr>originalError := orig\<rparr>"

definition RateLimitError_new ::
  "nat \<Rightarrow> string \<Rightarrow> js_number option \<Rightarrow> string option \<Rightarrow> js_error" where
  "RateLimitError_new now msg ra orig =
     (AutomationError_new now RateLimitError msg ''RATE_LIMIT_ERROR'' True)
       \<lparr>retryAfter := ra, originalError := orig\<rparr>"

definition NetworkError_new :: "nat \<Rightarrow> string \<Rightarrow> string option \<Rightarrow> js_error" where
  "NetworkError_new now msg orig =
     (AutomationError_new now NetworkError msg ''NETWORK_ERROR'' True)
       \<lparr>originalError := orig\<rparr>"

definition APIError_new ::
  "nat \<Rightarrow> string \<Rightarrow> int option \<Rightarrow> string option \<Rightarrow> js_error" where
  "APIError_new now msg sc orig =
     (AutomationError_new now APIError msg ''API_ERROR'' True)
       \<lparr>statusCode := sc, originalError := orig\<rparr>"

definition ValidationError_new :: "nat \<Rightarrow> string \<Rightarrow> string option \<Rightarrow> js_error" where
  "ValidationError_new now msg orig =
     (AutomationError_new now ValidationError msg ''VALIDATION_ERROR'' False)
       \<lparr>originalError := orig\<rparr>"

datatype ErrorAction =
  STOP_AUTOMATION | RETRY_WITH_BACKOFF | SKIP_AND_CONTINUE | WAIT_AND_RETRY | LOG_AND_CONTINUE

section \<open>ErrorHandler\<close>

text \<open>
  The handler's fields (constructor, lines 87-92). \<^verbatim>\<open>storageService\<close> records only
  whether a storage service was passed: its \<^verbatim>\<open>appendLog\<close> is called inside
  \<^verbatim>\<open>try/catch\<close> blocks and never changes what the handler returns.
\<close>

record ErrorHandler =
  storageService :: bool
  maxRetries :: nat
  baseBackoffMs :: int
  maxBackoffMs :: int

definition ErrorHandler_new :: "bool \<Rightarrow> ErrorHandler" where
  "ErrorHandler_new storage =
     \<lparr>storageService = storage, maxRetries = 3, baseBackoffMs = 1000, maxBackoffMs = 60000\<rparr>"

text \<open>The context object: only \<^verbatim>\<open>attemptNumber\<close> is read by the handler.\<close>

record error_context =
  attemptNumber :: "nat option"

text \<open>\<^verbatim>\<open>extractRetryAfter(error)\<close>, lines 329-350; \<^verbatim>\<open>None\<close> is \<^verbatim>\<open>null\<close>.\<close>

definition extractRetryAfter :: "js_error \<Rightarrow> js_number option" where
  "extractRetryAfter error =
     (case (case headers_retry_after error of
              Some h \<Rightarrow> if h \<noteq> [] then Some h else None
            | None \<Rightarrow> None) of
        Some h \<Rightarrow> Some (js_times (parseInt h) 1000)
      | None \<Rightarrow>
          (case retry_phrase (message error) of
             Some (digits, word) \<Rightarrow>
               (let val = parseInt digits; unit_name = toLowerCase word
                in if startsWith unit_name ''hour'' then Some (js_times val (60 * 60 * 1000))
                   else if startsWith unit_name ''minute'' then Some (js_times val (60 * 1000))
                   else if startsWith unit_name ''second'' then Some (js_times val 1000)
                   else None)
           | None \<Rightarrow> None))"

text \<open>\<^verbatim>\<open>classifyError(error)\<close>, lines 127-181, with the clock reading passed in.\<close>

definition classifyError :: "nat \<Rightarrow> js_error \<Rightarrow> js_error" where
  "classifyError now error =
     (if instanceof error AutomationError then error
      else
        (let msg = toLowerCase (message error)
         in if includes_str msg ''authentication'' \<or>
               includes_str msg ''login'' \<or>
               includes_str msg ''invalid credentials'' \<or>
               includes_str msg ''challenge_required'' \<or>
               includes_str msg ''checkpoint_required'' \<or>
               includes_str msg ''not authenticated''
            then AuthenticationError_new now (message error) (Some (name error))
            else if includes_str msg ''rate limit'' \<or>
                    includes_str msg ''too many requests'' \<or>
                    includes_str msg ''429''
            then (let ra = (if truthy_number (extractRetryAfter error)
                            then extractRetryAfter error else Some (Num 60000))
                  in RateLimitError_new now (message error) ra (Some (name error)))
            else if includes_str msg ''network'' \<or>
                    includes_str msg ''timeout'' \<or>
                    includes_str msg ''econnrefused'' \<or>
                    includes_str msg ''enotfound'' \<or>
                    includes_str msg ''connection'' \<or>
                    includes_str msg ''dns''
            then NetworkError_new now (message error) (Some (name error))
            else if includes_str msg ''api'' \<or>
                    includes_str msg ''gemini'' \<or>
                    includes_str msg ''instagram'' \<or>
                    (case statusCode error of Some n \<Rightarrow> n \<noteq> 0 | None \<Rightarrow> False)
            then APIError_new now (message error) (statusCode error) (Some (name error))
            else if includes_str msg ''validation'' \<or>
                    includes_str msg ''invalid'' \<or>
                    includes_str msg ''required'' \<or>
                    includes_str msg ''must be''
            then ValidationError_new now (message error) (Some (name error))
            else APIError_new now (message error) None (Some (name error))))"

text \<open>\<^verbatim>\<open>determineAction(error, context)\<close>, lines 187-223.\<close>

definition determineAction :: "ErrorHandler \<Rightarrow> js_error \<Rightarrow> error_context \<Rightarrow> ErrorAction" where
  "determineAction this error ctx =
     (let attempt = (case attemptNumber ctx of
                       None \<Rightarrow> 1
                     | Some n \<Rightarrow> if n = 0 then 1 else n)
      in if instanceof error AuthenticationError then STOP_AUTOMATION
         else if instanceof error RateLimitError then WAIT_AND_RETRY
         else if instanceof error NetworkError then
           (if attempt \<ge> maxRetries this then SKIP_AND_CONTINUE else RETRY_WITH_BACKOFF)
         else if instanceof error APIError then
           (if attempt \<ge> maxRetries this then SKIP_AND_CONTINUE else RETRY_WITH_BACKOFF)
         else if instanceof error ValidationError then SKIP_AND_CONTINUE
         else LOG_AND_CONTINUE)"

text \<open>
  \<^verbatim>\<open>calculateBackoff(attemptNumber)\<close>, lines 313-323. \<^verbatim>\<open>random\<close> is the value
  \<^verbatim>\<open>Math.random()\<close> returns, a double in \<open>[0, 1)\<close> and so a rational; the
  arithmetic is exact rational arithmetic, without the rounding of doubles.
\<close>

definition calculateBackoff :: "ErrorHandler \<Rightarrow> int \<Rightarrow> rat \<Rightarrow> int" where
  "calculateBackoff this attempt random =
     (let backoff = min (of_int (baseBackoffMs this) * (2 powi (attempt - 1)))
                        (of_int (maxBackoffMs this));
          jitter = backoff * (2 / 10) * (random * 2 - 1)
      in \<lfloor>backoff + jitter\<rfloor>)"

text \<open>
  What the handler does besides returning: what it writes to the console and the
  activity log, the calls of the wrapped operation, and the sleeps.
\<close>

datatype event =
  Call nat
  | LogError js_error error_context
  | NotifyFrontend js_error ErrorAction
  | Sleep int

record handled =
  res_action :: ErrorAction
  res_error :: js_error
  res_retryAfter :: int
  res_shouldStop :: bool

text \<open>
  \<^verbatim>\<open>handleError(error, context)\<close>, lines 100-121. \<^verbatim>\<open>Math.random()\<close> is read only
  when the classified error has no truthy \<^verbatim>\<open>retryAfter\<close>.
\<close>

definition handleError ::
  "ErrorHandler \<Rightarrow> nat \<Rightarrow> rat \<Rightarrow> js_error \<Rightarrow> error_context \<Rightarrow> handled \<times> event list" where
  "handleError this now random error ctx =
     (let classifiedError = classifyError now error;
          action = determineAction this classifiedError ctx;
          attempt = (case attemptNumber ctx of
                       None \<Rightarrow> 1
                     | Some n \<Rightarrow> if n = 0 then 1 else n)
      in (\<lparr>res_action = action,
           res_error = classifiedError,
           res_retryAfter =
             (case retryAfter classifiedError of
                Some (Num n) \<Rightarrow>
                  if n \<noteq> 0 then n else calculateBackoff this (int attempt) random
              | _ \<Rightarrow> calculateBackoff this (int attempt) random),
           res_shouldStop = (action = STOP_AUTOMATION)\<rparr>,
          LogError classifiedError ctx
            # (if storageService this then [NotifyFrontend classifiedError action] else [])))"

text \<open>
  \<^verbatim>\<open>executeWithRetry(fn, context, maxAttempts)\<close>, lines 359-390. \<^verbatim>\<open>fn k\<close> is what the
  wrapped operation does when it is called at attempt \<open>k\<close>: it throws (\<^verbatim>\<open>Inl\<close>) or
  returns (\<^verbatim>\<open>Inr\<close>); \<^verbatim>\<open>clock k\<close> and \<^verbatim>\<open>rnd k\<close> are the clock reading and the random
  number at that attempt. The result is what is thrown (\<^verbatim>\<open>None\<close> is
  \<^verbatim>\<open>undefined\<close>, the initial \<^verbatim>\<open>lastError\<close>) or returned, with the events in order.
  \<^verbatim>\<open>retry_loop\<close> is the \<^verbatim>\<open>for\<close> loop entered at \<^verbatim>\<open>attempt\<close>.
\<close>

function retry_loop ::
  "ErrorHandler \<Rightarrow> (nat \<Rightarrow> js_error + 'a) \<Rightarrow> (nat \<Rightarrow> nat) \<Rightarrow> (nat \<Rightarrow> rat) \<Rightarrow> error_context \<Rightarrow> nat
   \<Rightarrow> js_error option \<Rightarrow> nat \<Rightarrow> (js_error option + 'a) \<times> event list" where
  "retry_loop this fn clock rnd ctx maxAttempts lastError attempt =
     (if attempt \<le> maxAttempts then
        (case fn attempt of
           Inr v \<Rightarrow> (Inr v, [Call attempt])
         | Inl error \<Rightarrow>
             (let errorContext = ctx\<lparr>attemptNumber := Some attempt\<rparr>;
                  outcome = handleError this (clock attempt) (rnd attempt) error errorContext;
                  result = fst outcome;
                  logged = snd outcome
              in if res_shouldStop result then (Inl (Some error), Call attempt # logged)
                 else if attempt \<ge> maxAttempts then (Inl (Some error), Call attempt # logged)
                 else
                   (let slept =
                          (if res_action result = RETRY_WITH_BACKOFF \<or>
                              res_action result = WAIT_AND_RETRY
                           then [Sleep (res_retryAfter result)] else []);
                        rest = retry_loop this fn clock rnd ctx maxAttempts (Some error)
                                 (attempt + 1)
                    in (fst rest, Call attempt # logged @ slept @ snd rest))))
      else (Inl lastError, []))"
  by pat_completeness auto
termination
  by (relation "measure (\<lambda>(this, fn, clock, rnd, ctx, maxAttempts, lastError, attempt).
                  Suc maxAttempts - attempt)") auto

declare retry_loop.simps [simp del]

definition executeWithRetry ::
  "ErrorHandler \<Rightarrow> (nat \<Rightarrow> js_error + 'a) \<Rightarrow> (nat \<Rightarrow> nat) \<Rightarrow> (nat \<Rightarrow> rat) \<Rightarrow> error_context \<Rightarrow> nat
   \<Rightarrow> (js_error option + 'a) \<times> event list" where
  "executeWithRetry this fn clock rnd ctx maxAttempts =
     retry_loop this fn clock rnd ctx maxAttempts None 1"

section \<open>The ProcessedComment collection\<close>

text \<open>
  A stored document of the schema (\<^verbatim>\<open>ProcessedComment.js\<close>, lines 7-59);
  \<^verbatim>\<open>userId\<close> is the owner's ObjectId, \<^verbatim>\<open>processedAt\<close> the default
  \<^verbatim>\<open>Date.now\<close>. The expiry of documents after thirty days is the database's own
  background work and is not modelled.
\<close>

record processed_comment =
  userId :: nat
  commentId :: string
  postId :: string
  username :: string
  commentText :: string
  replyText :: "string option"
  replyId :: "string option"
  status :: string
  processedAt :: nat

text \<open>The \<^verbatim>\<open>commentData\<close> argument; a property that is not set is \<^verbatim>\<open>None\<close>.\<close>

record comment_data =
  cd_id :: "string option"
  cd_postId :: "string option"
  cd_username :: "string option"
  cd_text :: "string option"
  cd_reply :: "string option"
  cd_replyId :: "string option"
  cd_status :: "string option"

text \<open>
  What a database call can throw: a server error with its numeric \<^verbatim>\<open>code\<close>
  (11000 is the duplicate key of a unique index), a document rejected by the schema's
  validators, or a failed round trip.
\<close>

datatype db_error = MongoServerError nat | ValidationFailed | ConnectionFailed

fun error_code :: "db_error \<Rightarrow> nat option" where
  "error_code (MongoServerError n) = Some n"
| "error_code ValidationFailed = None"
| "error_code ConnectionFailed = None"

text \<open>
  The collection: its documents in insertion order, and \<^verbatim>\<open>offline\<close>, which when set
  makes every round trip to the database throw \<^verbatim>\<open>ConnectionFailed\<close>.
\<close>

record collection =
  docs :: "processed_comment list"
  offline :: bool

text \<open>\<^verbatim>\<open>x || null\<close> and \<^verbatim>\<open>x || d\<close> on a possibly missing string: the empty string is falsy.\<close>

definition or_null :: "string option \<Rightarrow> string option" where
  "or_null x = (case x of Some s \<Rightarrow> if s = [] then None else Some s | None \<Rightarrow> None)"

definition or_default :: "string option \<Rightarrow> string \<Rightarrow> string" where
  "or_default x d = (case x of Some s \<Rightarrow> if s = [] then d else s | None \<Rightarrow> d)"

text \<open>
  The schema's validators on the object \<^verbatim>\<open>markProcessed\<close> passes to \<^verbatim>\<open>create\<close>:
  \<^verbatim>\<open>commentId\<close>, \<^verbatim>\<open>postId\<close>, \<^verbatim>\<open>username\<close> and \<^verbatim>\<open>commentText\<close> are required
  strings (present and not empty), \<^verbatim>\<open>status\<close> is one of the five listed values.
\<close>

definition required_string :: "string option \<Rightarrow> bool" where
  "required_string x = (case x of Some s \<Rightarrow> s \<noteq> [] | None \<Rightarrow> False)"

definition status_enum :: "string list" where
  "status_enum = [''detected'', ''reply_generated'', ''reply_posted'', ''failed'', ''skipped'']"

definition schema_valid :: "comment_data \<Rightarrow> bool" where
  "schema_valid cd =
     (required_string (cd_id cd) \<and> required_string (cd_postId cd) \<and>
      required_string (cd_username cd) \<and> required_string (cd_text cd) \<and>
      or_default (cd_status cd) ''detected'' \<in> set status_enum)"

definition matching :: "nat \<Rightarrow> string \<Rightarrow> processed_comment \<Rightarrow> bool" where
  "matching uid cid d = (userId d = uid \<and> commentId d = cid)"

text \<open>
  \<^verbatim>\<open>this.create({...})\<close> as \<^verbatim>\<open>markProcessed\<close> calls it (lines 82-91): validation
  first, then the insert, which the unique index on \<^verbatim>\<open>(userId, commentId)\<close>
  (line 62) refuses with code 11000 when the pair is already stored. The four required
  strings are read with \<^verbatim>\<open>the\<close> only after validation has found them present.
\<close>

definition create ::
  "collection \<Rightarrow> nat \<Rightarrow> nat \<Rightarrow> comment_data \<Rightarrow> (db_error + processed_comment) \<times> collection" where
  "create c now uid cd =
     (if \<not> schema_valid cd then (Inl ValidationFailed, c)
      else
        (if offline c then (Inl ConnectionFailed, c)
         else
             (let doc = \<lparr>userId = uid,
                         commentId = the (cd_id cd),
                         postId = the (cd_postId cd),
                         username = the (cd_username cd),
                         commentText = the (cd_text cd),
                         replyText = or_null (cd_reply cd),
                         replyId = or_null (cd_replyId cd),
                         status = or_default (cd_status cd) ''detected'',
                         processedAt = now\<rparr>
              in if \<exists>d \<in> set (docs c). matching uid (commentId doc) d
                 then (Inl (MongoServerError 11000), c)
                 else (Inr doc, c\<lparr>docs := docs c @ [doc]\<rparr>))))"

definition countDocuments :: "collection \<Rightarrow> nat \<Rightarrow> string \<Rightarrow> db_error + nat" where
  "countDocuments c uid cid =
     (if offline c then Inl ConnectionFailed
      else Inr (length (filter (matching uid cid) (docs c))))"

text \<open>\<^verbatim>\<open>isProcessed(userId, commentId)\<close>, lines 72-75.\<close>

definition isProcessed :: "collection \<Rightarrow> nat \<Rightarrow> string \<Rightarrow> db_error + bool" where
  "isProcessed c uid cid =
     (case countDocuments c uid cid of
        Inl e \<Rightarrow> Inl e
      | Inr n \<Rightarrow> Inr (n > 0))"

text \<open>\<^verbatim>\<open>markProcessed(userId, commentData)\<close>, lines 80-100.\<close>

definition markProcessed ::
  "collection \<Rightarrow> nat \<Rightarrow> nat \<Rightarrow> comment_data \<Rightarrow> (db_error + bool) \<times> collection" where
  "markProcessed c now uid cd =
     (case create c now uid cd of
        (Inr doc, c1) \<Rightarrow> (Inr True, c1)
      | (Inl e, c1) \<Rightarrow>
          if error_code e = Some 11000 then (Inr False, c1) else (Inl e, c1))"

section \<open>StorageService\<close>

text \<open>The service holds the id of the user it works for, or \<^verbatim>\<open>null\<close>.\<close>

record storage_service =
  svc_userId :: "nat option"

text \<open>\<^verbatim>\<open>isCommentProcessed(commentId)\<close>, \<^verbatim>\<open>storage.service.js\<close> lines 84-95.\<close>

definition isCommentProcessed ::
  "storage_service \<Rightarrow> collection \<Rightarrow> string \<Rightarrow> db_error + bool" where
  "isCommentProcessed this c cid =
     (case (case svc_userId this of
              None \<Rightarrow> Inr False
            | Some uid \<Rightarrow> isProcessed c uid cid) of
        Inr b \<Rightarrow> Inr b
      | Inl e \<Rightarrow> Inr False)"

text \<open>
  The part of a user document the service touches: \<^verbatim>\<open>automationSettings\<close>
  (\<^verbatim>\<open>User.js\<close>, lines 50-74).
\<close>

record automation_settings =
  replyTone :: string
  pollIntervalSeconds :: nat
  maxCommentsPerCheck :: nat
  settings_isActive :: bool

record user_db =
  users :: "nat \<rightharpoonup> automation_settings"
  users_offline :: bool

text \<open>
  The automation state a caller hands to \<^verbatim>\<open>saveAutomationState\<close> and gets from
  \<^verbatim>\<open>loadAutomationState\<close>; a property the object lacks is \<^verbatim>\<open>None\<close>.
\<close>

record stats =
  commentsDetected :: nat
  repliesGenerated :: nat
  repliesPosted :: nat
  errorCount :: nat

record automation_state =
  isActive :: "bool option"
  lastCheckTime :: "nat option"
  stats :: "stats option"
  processedComments :: "string list option"

datatype storage_error = NoUserId | UserNotFound | Database db_error

definition findById :: "user_db \<Rightarrow> nat \<Rightarrow> db_error + automation_settings option" where
  "findById db uid =
     (if users_offline db then Inl ConnectionFailed else Inr (users db uid))"

text \<open>\<^verbatim>\<open>saveAutomationState(state)\<close>, lines 184-201.\<close>

definition saveAutomationState ::
  "storage_service \<Rightarrow> user_db \<Rightarrow> automation_state \<Rightarrow> (storage_error + unit) \<times> user_db" where
  "saveAutomationState this db state =
     (case svc_userId this of
        None \<Rightarrow> (Inl NoUserId, db)
      | Some uid \<Rightarrow>
          (case findById db uid of
             Inl e \<Rightarrow> (Inl (Database e), db)
           | Inr None \<Rightarrow> (Inl UserNotFound, db)
           | Inr (Some settings) \<Rightarrow>
               (Inr (),
                db\<lparr>users := (users db)
                      (uid \<mapsto> settings\<lparr>settings_isActive :=
                                (case isActive state of Some b \<Rightarrow> b | None \<Rightarrow> False)\<rparr>)\<rparr>)))"

text \<open>\<^verbatim>\<open>loadAutomationState()\<close>, lines 206-226; \<^verbatim>\<open>None\<close> is \<^verbatim>\<open>null\<close>.\<close>

definition loadAutomationState :: "storage_service \<Rightarrow> user_db \<Rightarrow> automation_state option" where
  "loadAutomationState this db =
     (case svc_userId this of
        None \<Rightarrow> None
      | Some uid \<Rightarrow>
          (case findById db uid of
             Inl e \<Rightarrow> None
           | Inr None \<Rightarrow> None
           | Inr (Some settings) \<Rightarrow>
               Some \<lparr>isActive = Some (settings_isActive settings),
                     lastCheckTime = None,
                     stats = None,
                     processedComments = Some []\<rparr>))"

section \<open>Vocabulary for the properties\<close>

text \<open>
  \<^verbatim>\<open>new Error(msg)\<close>: a plain error, as the services of the repository throw.
  \<^verbatim>\<open>mentions msg kws\<close>: the lower-cased message includes one of the keywords.
  The five keyword lists are those of \<^verbatim>\<open>classifyError\<close>, in its order, and
  \<^verbatim>\<open>kind_of\<close> is the class they select; \<^verbatim>\<open>cls_classifyError_raw\<close> below proves
  that \<^verbatim>\<open>classifyError\<close> computes it.
\<close>

definition Error_new :: "string \<Rightarrow> js_error" where
  "Error_new msg =
     \<lparr>cls = None, name = ''Error'', message = msg, originalError = None, code = None,
      recoverable = None, timestamp = None, retryAfter = None, statusCode = None,
      headers_retry_after = None\<rparr>"

definition mentions :: "string \<Rightarrow> string list \<Rightarrow> bool" where
  "mentions msg kws = (\<exists>k \<in> set kws. includes_str (toLowerCase msg) k)"

definition auth_words :: "string list" where
  "auth_words = [''authentication'', ''login'', ''invalid credentials'', ''challenge_required'',
                 ''checkpoint_required'', ''not authenticated'']"
definition rate_words :: "string list" where
  "rate_words = [''rate limit'', ''too many requests'', ''429'']"
definition network_words :: "string list" where
  "network_words = [''network'', ''timeout'', ''econnrefused'', ''enotfound'', ''connection'', ''dns'']"
definition api_words :: "string list" where
  "api_words = [''api'', ''gemini'', ''instagram'']"
definition validation_words :: "string list" where
  "validation_words = [''validation'', ''invalid'', ''required'', ''must be'']"

text \<open>The unique index of the collection: no two documents share \<^verbatim>\<open>(userId, commentId)\<close>.\<close>

definition unique_index :: "collection \<Rightarrow> bool" where
  "unique_index c = distinct (map (\<lambda>d. (userId d, commentId d)) (docs c))"

definition truthy_status :: "int option \<Rightarrow> bool" where
  "truthy_status sc = (case sc of Some n \<Rightarrow> n \<noteq> 0 | None \<Rightarrow> False)"

definition kind_of :: "string \<Rightarrow> int option \<Rightarrow> error_class" where
  "kind_of msg sc =
     (if mentions msg auth_words then AuthenticationError
      else if mentions msg rate_words then RateLimitError
      else if mentions msg network_words then NetworkError
      else if mentions msg api_words \<or> truthy_status sc then APIError
      else if mentions msg validation_words then ValidationError
      else APIError)"

section \<open>Properties of the request budget\<close>

lemma checkRateLimit_limit_unchanged:
  "maxRequestsPerHour (snd (checkRateLimit now this)) = maxRequestsPerHour this
   \<and> requestWindow (snd (checkRateLimit now this)) = requestWindow this"
  by (simp add: checkRateLimit_def Let_def)

lemma checkRateLimit_within_budget:
  assumes "requestCount this \<le> maxRequestsPerHour this"
  shows "requestCount (snd (checkRateLimit now this))
           \<le> maxRequestsPerHour (snd (checkRateLimit now this))"
  using assms by (simp add: checkRateLimit_def Let_def)

lemma checkRateLimit_calls_Cons_snd:
  "snd (checkRateLimit_calls (now # nows) this)
     = snd (checkRateLimit_calls nows (snd (checkRateLimit now this)))"
  by (simp split: prod.splits)

lemma checkRateLimit_calls_within_budget:
  "requestCount this \<le> maxRequestsPerHour this \<Longrightarrow>
   requestCount (snd (checkRateLimit_calls nows this))
     \<le> maxRequestsPerHour (snd (checkRateLimit_calls nows this))"
proof (induction nows arbitrary: this)
  case Nil
  then show ?case by simp
next
  case (Cons now nows)
  have "requestCount (snd (checkRateLimit now this))
          \<le> maxRequestsPerHour (snd (checkRateLimit now this))"
    by (rule checkRateLimit_within_budget [OF Cons.prems])
  from Cons.IH [OF this] show ?case
    by (simp only: checkRateLimit_calls_Cons_snd)
qed

lemma checkRateLimit_rejected_no_increment:
  "checkRateLimit now this = (Inl e, this1) \<Longrightarrow> requestCount this1 \<le> requestCount this"
  by (auto simp: checkRateLimit_def Let_def split: if_splits)

lemma checkRateLimit_reset:
  assumes "now - requestWindowStart this > requestWindow this"
  shows "requestWindowStart (snd (checkRateLimit now this)) = now"
    and "requestCount (snd (checkRateLimit now this))
           = (if 0 < maxRequestsPerHour this then 1 else 0)"
  using assms by (simp_all add: checkRateLimit_def Let_def)

lemma checkRateLimit_no_reset:
  assumes "now - requestWindowStart this \<le> requestWindow this"
  shows "requestWindowStart (snd (checkRateLimit now this)) = requestWindowStart this"
    and "requestCount this \<le> requestCount (snd (checkRateLimit now this))"
  using assms by (simp_all add: checkRateLimit_def Let_def)




section \<open>Properties of classification and of the decided action\<close>

lemma cls_constructors [simp]:
  "cls (AuthenticationError_new now m orig) = Some AuthenticationError"
  "cls (RateLimitError_new now m ra orig) = Some RateLimitError"
  "cls (NetworkError_new now m orig) = Some NetworkError"
  "cls (APIError_new now m sc orig) = Some APIError"
  "cls (ValidationError_new now m orig) = Some ValidationError"
  by (simp_all add: AuthenticationError_new_def RateLimitError_new_def NetworkError_new_def
      APIError_new_def ValidationError_new_def AutomationError_new_def)

lemma instanceof_raw [simp]: "cls e = None \<Longrightarrow> instanceof e c = False"
  by (simp add: instanceof_def)

lemma cls_classifyError_raw:
  assumes "cls e = None"
  shows "cls (classifyError now e) = Some (kind_of (message e) (statusCode e))"
  using assms
  by (simp add: classifyError_def kind_of_def mentions_def auth_words_def rate_words_def
      network_words_def api_words_def validation_words_def truthy_status_def Let_def)

lemma cls_classifyError_custom:
  assumes "cls e = Some c"
  shows "classifyError now e = e"
  using assms by (simp add: classifyError_def instanceof_def)


lemma recoverable_classifyError_raw:
  assumes "cls e = None"
  shows "recoverable (classifyError now e)
           = Some (kind_of (message e) (statusCode e) \<notin> {AuthenticationError, ValidationError})"
  using assms
  by (simp add: classifyError_def kind_of_def mentions_def auth_words_def rate_words_def
      network_words_def api_words_def validation_words_def truthy_status_def Let_def
      AuthenticationError_new_def RateLimitError_new_def NetworkError_new_def
      APIError_new_def ValidationError_new_def AutomationError_new_def)

lemma classifyError_clock:
  assumes "cls e = None"
  shows "classifyError now' e = (classifyError now e)\<lparr>timestamp := Some now'\<rparr>"
  using assms
  by (simp add: classifyError_def Let_def AuthenticationError_new_def RateLimitError_new_def
      NetworkError_new_def APIError_new_def ValidationError_new_def AutomationError_new_def)

lemma kind_of_five:
  "kind_of msg sc \<in> {AuthenticationError, RateLimitError, NetworkError, APIError, ValidationError}"
  by (simp add: kind_of_def)

lemma kind_of_unmatched:
  assumes "\<not> mentions msg (auth_words @ rate_words @ network_words @ api_words @ validation_words)"
    and "\<not> truthy_status sc"
  shows "kind_of msg sc = APIError"
  using assms by (auto simp: kind_of_def mentions_def)



lemma determineAction_by_class:
  assumes "cls err = Some c"
  shows "determineAction this err ctx =
     (case c of
        AuthenticationError \<Rightarrow> STOP_AUTOMATION
      | RateLimitError \<Rightarrow> WAIT_AND_RETRY
      | NetworkError \<Rightarrow>
          if (case attemptNumber ctx of None \<Rightarrow> 1 | Some n \<Rightarrow> if n = 0 then 1 else n)
               \<ge> maxRetries this then SKIP_AND_CONTINUE else RETRY_WITH_BACKOFF
      | APIError \<Rightarrow>
          if (case attemptNumber ctx of None \<Rightarrow> 1 | Some n \<Rightarrow> if n = 0 then 1 else n)
               \<ge> maxRetries this then SKIP_AND_CONTINUE else RETRY_WITH_BACKOFF
      | ValidationError \<Rightarrow> SKIP_AND_CONTINUE
      | AutomationError \<Rightarrow> LOG_AND_CONTINUE)"
  using assms by (cases c) (simp_all add: determineAction_def instanceof_def Let_def)

lemma classifyError_class:
  "cls (classifyError now e)
     = (case cls e of None \<Rightarrow> Some (kind_of (message e) (statusCode e)) | Some c \<Rightarrow> Some c)"
  by (cases "cls e") (simp_all add: cls_classifyError_raw cls_classifyError_custom)

text \<open>
  C10 (as the code has it). For every error that is not a bare instance of the base
  class \<^verbatim>\<open>AutomationError\<close>, \<^verbatim>\<open>determineAction\<close> on the result of
  \<^verbatim>\<open>classifyError\<close> is one of the four actions and never \<^verbatim>\<open>LOG_AND_CONTINUE\<close>.
\<close>

theorem determineAction_four_actions:
  assumes "cls e \<noteq> Some AutomationError"
  shows "determineAction this (classifyError now e) ctx
           \<in> {STOP_AUTOMATION, WAIT_AND_RETRY, RETRY_WITH_BACKOFF, SKIP_AND_CONTINUE}"
proof -
  obtain c where c: "cls (classifyError now e) = Some c" and "c \<noteq> AutomationError"
    using assms kind_of_five [of "message e" "statusCode e"]
    by (cases "cls e") (auto simp: classifyError_class)
  then show ?thesis
    by (cases c) (simp_all add: determineAction_by_class [OF c])
qed

theorem determineAction_four_actions_witness:
  "cls (Error_new ''socket hang up'') \<noteq> Some AutomationError
   \<and> determineAction (ErrorHandler_new False) (classifyError 0 (Error_new ''socket hang up''))
        \<lparr>attemptNumber = Some 1\<rparr> = RETRY_WITH_BACKOFF"
  using determineAction_four_actions [of "Error_new ''socket hang up''" "ErrorHandler_new False" 0
      "\<lparr>attemptNumber = Some 1\<rparr>"]
  by (simp add: Error_new_def classifyError_def instanceof_def toLowerCase_def lower_char_def
      determineAction_def ErrorHandler_new_def APIError_new_def AutomationError_new_def)

text \<open>
  C10 as stated fails: \<^verbatim>\<open>classifyError\<close> returns an instance of the base class
  unchanged (line 129), and \<^verbatim>\<open>determineAction\<close> then falls through to its default.
\<close>

theorem determineAction_default_counterexample:
  "determineAction (ErrorHandler_new False)
     (classifyError 0 (AutomationError_new 0 AutomationError ''boom'' ''CUSTOM'' True))
     \<lparr>attemptNumber = None\<rparr> = LOG_AND_CONTINUE"
  by (simp add: classifyError_def instanceof_def determineAction_def AutomationError_new_def)

section \<open>Properties of the retry loop\<close>

lemma cls_classifyError_clock:
  "cls (classifyError now e) = cls (classifyError now' e)"
  by (simp add: classifyError_class)

lemma handleError_stop:
  assumes "cls (classifyError now e) = Some AuthenticationError"
  shows "res_shouldStop (fst (handleError this now r e ctx))"
    and "snd (handleError this now r e ctx)
           = LogError (classifyError now e) ctx
             # (if storageService this
                then [NotifyFrontend (classifyError now e) STOP_AUTOMATION] else [])"
  using determineAction_by_class [OF assms, of this ctx]
  by (simp_all add: handleError_def Let_def)

text \<open>
  C3. When a failure classifies as \<^verbatim>\<open>AuthenticationError\<close>, the decided action
  is \<^verbatim>\<open>STOP_AUTOMATION\<close> whatever the context's attempt number, and the retry loop
  that meets it at any attempt within \<^verbatim>\<open>maxAttempts\<close> throws the original error at
  once: the operation has been called that one time, the error has been logged (and
  the frontend notified when there is a storage service), nothing has slept and
  nothing is called again. In particular \<^verbatim>\<open>executeWithRetry\<close> stops after its
  first attempt.
\<close>

theorem authentication_stops_immediately:
  assumes "cls (classifyError now e) = Some AuthenticationError"
  shows "determineAction this (classifyError now e) anyctx = STOP_AUTOMATION
         \<and> (fn attempt = Inl e \<and> attempt \<le> maxAttempts \<longrightarrow>
              retry_loop this fn clock rnd ctx maxAttempts lastError attempt
                = (Inl (Some e),
                   Call attempt
                   # LogError (classifyError (clock attempt) e) (ctx\<lparr>attemptNumber := Some attempt\<rparr>)
                   # (if storageService this
                      then [NotifyFrontend (classifyError (clock attempt) e) STOP_AUTOMATION]
                      else [])))
         \<and> (fn 1 = Inl e \<and> 1 \<le> maxAttempts \<longrightarrow>
              executeWithRetry this fn clock rnd ctx maxAttempts
                = (Inl (Some e),
                   Call 1
                   # LogError (classifyError (clock 1) e) (ctx\<lparr>attemptNumber := Some 1\<rparr>)
                   # (if storageService this
                      then [NotifyFrontend (classifyError (clock 1) e) STOP_AUTOMATION]
                      else [])))"
proof -
  have auth: "cls (classifyError t e) = Some AuthenticationError" for t
    using assms cls_classifyError_clock [of t e now] by simp
  have loop: "retry_loop this fn clock rnd ctx maxAttempts last k
                = (Inl (Some e),
                   Call k
                   # LogError (classifyError (clock k) e) (ctx\<lparr>attemptNumber := Some k\<rparr>)
                   # (if storageService this
                      then [NotifyFrontend (classifyError (clock k) e) STOP_AUTOMATION]
                      else []))"
    if "fn k = Inl e" "k \<le> maxAttempts" for k last
    using that handleError_stop [OF auth, of this "clock k" "rnd k" "ctx\<lparr>attemptNumber := Some k\<rparr>"]
    by (subst retry_loop.simps) (simp add: Let_def)
  show ?thesis
    using determineAction_by_class [OF assms, of this anyctx] loop [of attempt lastError]
      loop [of 1 None]
    by (simp add: executeWithRetry_def)
qed

theorem authentication_stops_immediately_witness:
  "cls (classifyError 0 (Error_new ''Login failed'')) = Some AuthenticationError
   \<and> determineAction (ErrorHandler_new False) (classifyError 0 (Error_new ''Login failed''))
        \<lparr>attemptNumber = Some 2\<rparr> = STOP_AUTOMATION
   \<and> executeWithRetry (ErrorHandler_new False)
        (\<lambda>k. Inl (Error_new ''Login failed'') :: js_error + unit) (\<lambda>k. 0) (\<lambda>k. 0)
        \<lparr>attemptNumber = None\<rparr> 3
       = (Inl (Some (Error_new ''Login failed'')),
          [Call 1, LogError (classifyError 0 (Error_new ''Login failed''))
                     \<lparr>attemptNumber = Some 1\<rparr>])"
proof -
  have auth: "cls (classifyError 0 (Error_new ''Login failed'')) = Some AuthenticationError"
    by code_simp
  show ?thesis
    using auth authentication_stops_immediately [OF auth, of "ErrorHandler_new False"
      "\<lparr>attemptNumber = Some 2\<rparr>" "\<lambda>k. Inl (Error_new ''Login failed'') :: js_error + unit"
      1 3 "\<lambda>k. 0" "\<lambda>k. 0" "\<lparr>attemptNumber = None\<rparr>" None]
    by (simp add: ErrorHandler_new_def)
qed

text \<open>
  C4, on the code. A \<^verbatim>\<open>ValidationError\<close> is decided as \<^verbatim>\<open>SKIP_AND_CONTINUE\<close>,
  but \<^verbatim>\<open>executeWithRetry\<close> only tests \<^verbatim>\<open>shouldStop\<close> and the two waiting
  actions: an operation that always throws a \<^verbatim>\<open>ValidationError\<close> is called at all
  three attempts, without sleeping, before the error is thrown to the caller.
\<close>

theorem validation_error_is_retried:
  "determineAction (ErrorHandler_new False)
     (classifyError 0 (ValidationError_new 0 ''Reply text is required'' None))
     \<lparr>attemptNumber = Some 1\<rparr> = SKIP_AND_CONTINUE
   \<and> executeWithRetry (ErrorHandler_new False)
        (\<lambda>k. Inl (ValidationError_new 0 ''Reply text is required'' None) :: js_error + unit)
        (\<lambda>k. k) (\<lambda>k. 1 / 2) \<lparr>attemptNumber = None\<rparr> 3
      = (Inl (Some (ValidationError_new 0 ''Reply text is required'' None)),
         [Call 1, LogError (ValidationError_new 0 ''Reply text is required'' None)
                    \<lparr>attemptNumber = Some 1\<rparr>,
          Call 2, LogError (ValidationError_new 0 ''Reply text is required'' None)
                    \<lparr>attemptNumber = Some 2\<rparr>,
          Call 3, LogError (ValidationError_new 0 ''Reply text is required'' None)
                    \<lparr>attemptNumber = Some 3\<rparr>])"
  by code_simp

section \<open>Properties of the backoff delay\<close>

lemma calculateBackoff_default:
  "calculateBackoff (ErrorHandler_new s) n r
     = \<lfloor>min (1000 * (2 powi (n - 1))) 60000 * (1 + (2 / 10) * (r * 2 - 1))\<rfloor>"
  by (simp add: calculateBackoff_def ErrorHandler_new_def Let_def algebra_simps)

lemma capped_backoff_int:
  assumes "1 \<le> n"
  shows "min (1000 * (2 powi (n - 1))) (60000 :: rat)
           = of_int (min (1000 * 2 ^ nat (n - 1)) 60000)"
proof -
  have 1: "(1000 * (2 powi (n - 1)) :: rat) = of_int (1000 * 2 ^ nat (n - 1))"
    using assms by (simp add: power_int_def)
  have 2: "(60000 :: rat) = of_int 60000" by simp
  show ?thesis unfolding 1 2 by (simp only: of_int_min)
qed




section \<open>Properties of rate-limit classification\<close>

lemma isDigit_not_space: "isDigit c \<Longrightarrow> \<not> isWhiteSpace c"
  by (auto simp: isDigit_def isWhiteSpace_def)

lemma isDigit_digitValue: "isDigit c \<Longrightarrow> \<exists>d. digitValue radix c = Some d"
  by (simp add: isDigit_def digitValue_def Let_def)

lemma isDigit_chars:
  assumes "isDigit c"
  shows "c \<noteq> CHR ''-''" and "c \<noteq> CHR ''+''" and "c \<noteq> CHR ''x''" and "c \<noteq> CHR ''X''"
  using assms by (auto simp: isDigit_def)

lemma startsWith_sign_digits:
  assumes "\<forall>c \<in> set h. isDigit c"
  shows "\<not> startsWith h ''-''" and "\<not> startsWith h ''+''"
    and "\<not> startsWith h ''0x''" and "\<not> startsWith h ''0X''"
proof -
  show "\<not> startsWith h ''-''" "\<not> startsWith h ''+''"
    using assms isDigit_chars(1,2) by (cases h; auto)+
  show "\<not> startsWith h ''0x''" "\<not> startsWith h ''0X''"
    using assms isDigit_chars(3,4)
    by (cases h; cases "tl h"; auto)+
qed

lemma parseInt_digits:
  assumes "h \<noteq> []" and "\<forall>c \<in> set h. isDigit c"
  shows "parseInt h = Num (int (digitsValue 10 0 h))"
proof -
  have 1: "dropWhile isWhiteSpace h = h"
    using assms by (cases h) (auto dest: isDigit_not_space)
  have 2: "takeWhile (\<lambda>c. \<exists>d. digitValue 10 c = Some d) h = h"
    using assms(2) by (simp add: takeWhile_eq_all_conv isDigit_digitValue)
  show ?thesis
    using assms(1) startsWith_sign_digits [OF assms(2)]
    by (simp add: parseInt_def 1 2 Let_def)
qed

lemma extractRetryAfter_header:
  assumes "headers_retry_after e = Some h" and "h \<noteq> []"
  shows "extractRetryAfter e = Some (js_times (parseInt h) 1000)"
  using assms by (simp add: extractRetryAfter_def)

lemma extractRetryAfter_nothing:
  assumes "headers_retry_after e = None \<or> headers_retry_after e = Some []"
    and "retry_phrase (message e) = None"
  shows "extractRetryAfter e = None"
  using assms by (auto simp: extractRetryAfter_def)

lemma classifyError_rate:
  assumes "cls e = None"
    and "mentions (message e) rate_words"
    and "\<not> mentions (message e) auth_words"
  shows "classifyError now e
           = RateLimitError_new now (message e)
               (if truthy_number (extractRetryAfter e) then extractRetryAfter e
                else Some (Num 60000))
               (Some (name e))"
proof -
  have no_auth:
    "\<not> (includes_str (toLowerCase (message e)) ''authentication'' \<or>
        includes_str (toLowerCase (message e)) ''login'' \<or>
        includes_str (toLowerCase (message e)) ''invalid credentials'' \<or>
        includes_str (toLowerCase (message e)) ''challenge_required'' \<or>
        includes_str (toLowerCase (message e)) ''checkpoint_required'' \<or>
        includes_str (toLowerCase (message e)) ''not authenticated'')"
    using assms(3) by (simp add: mentions_def auth_words_def)
  have rate:
    "includes_str (toLowerCase (message e)) ''rate limit'' \<or>
     includes_str (toLowerCase (message e)) ''too many requests'' \<or>
     includes_str (toLowerCase (message e)) ''429''"
    using assms(2) by (simp add: mentions_def rate_words_def)
  have "classifyError now e
          = (let msg = toLowerCase (message e)
             in if includes_str msg ''authentication'' \<or>
                   includes_str msg ''login'' \<or>
                   includes_str msg ''invalid credentials'' \<or>
                   includes_str msg ''challenge_required'' \<or>
                   includes_str msg ''checkpoint_required'' \<or>
                   includes_str msg ''not authenticated''
                then AuthenticationError_new now (message e) (Some (name e))
                else if includes_str msg ''rate limit'' \<or>
                        includes_str msg ''too many requests'' \<or>
                        includes_str msg ''429''
                then (let ra = (if truthy_number (extractRetryAfter e)
                                then extractRetryAfter e else Some (Num 60000))
                      in RateLimitError_new now (message e) ra (Some (name e)))
                else undefined)"
    using assms(1) no_auth rate
    by (simp only: classifyError_def instanceof_raw if_False Let_def if_True)
  then show ?thesis
    using no_auth rate by (simp only: Let_def if_False if_True)
qed




section \<open>Properties of the stores\<close>

lemma markProcessed_returns:
  assumes "markProcessed c now uid cd = (Inr b, c1)"
  shows "schema_valid cd" and "\<not> offline c" and "\<not> offline c1"
    and "b \<longrightarrow> (\<forall>d \<in> set (docs c). \<not> matching uid (the (cd_id cd)) d)
              \<and> (\<exists>doc. docs c1 = docs c @ [doc] \<and> matching uid (the (cd_id cd)) doc)"
    and "\<not> b \<longrightarrow> (\<exists>d \<in> set (docs c). matching uid (the (cd_id cd)) d) \<and> c1 = c"
  using assms
  by (auto simp: markProcessed_def create_def Let_def matching_def
      split: if_splits prod.splits sum.splits)

lemma markProcessed_duplicate:
  assumes "schema_valid cd" and "\<not> offline c"
    and "\<exists>d \<in> set (docs c). matching uid (the (cd_id cd)) d"
  shows "markProcessed c now uid cd = (Inr False, c)"
  using assms by (auto simp: markProcessed_def create_def Let_def)

lemma count_unique_key:
  "distinct (map f xs) \<Longrightarrow> d \<in> set xs \<Longrightarrow> length (filter (\<lambda>x. f x = f d) xs) = 1"
  by (induction xs) (auto simp: filter_empty_conv image_iff)

lemma unique_index_count:
  assumes "unique_index c" and "d \<in> set (docs c)" and "matching uid cid d"
  shows "length (filter (matching uid cid) (docs c)) = 1"
proof -
  have "matching uid cid = (\<lambda>x. (userId x, commentId x) = (userId d, commentId d))"
    using assms(3) by (auto simp: matching_def fun_eq_iff)
  then show ?thesis
    using count_unique_key [of "\<lambda>d. (userId d, commentId d)" "docs c" d] assms(1,2)
    by (simp add: unique_index_def)
qed

lemma unique_index_append:
  assumes "unique_index c" and "\<forall>d \<in> set (docs c). \<not> matching uid cid d"
    and "matching uid cid doc"
  shows "unique_index (c\<lparr>docs := docs c @ [doc]\<rparr>)"
  using assms by (auto simp: unique_index_def matching_def)

text \<open>
  C1. On a collection that satisfies its unique index, once a call of
  \<^verbatim>\<open>markProcessed\<close> for \<^verbatim>\<open>(userId, commentId)\<close> has returned (it was not
  rejected by the schema's validators, and the database answered), exactly one
  document with that pair is stored and \<^verbatim>\<open>isProcessed\<close> returns \<^verbatim>\<open>true\<close>; a
  second call for the same pair with valid data returns \<^verbatim>\<open>false\<close> instead of
  throwing and leaves the collection as it was, so both facts still hold after it.
\<close>

theorem markProcessed_idempotent:
  assumes "unique_index c"
    and "markProcessed c now uid cd = (Inr b, c1)"
    and "cd_id cd = Some cid"
  shows "length (filter (matching uid cid) (docs c1)) = 1
         \<and> isProcessed c1 uid cid = Inr True
         \<and> unique_index c1
         \<and> (schema_valid cd2 \<and> cd_id cd2 = Some cid \<longrightarrow>
               markProcessed c1 now2 uid cd2 = (Inr False, c1))"
proof -
  note r = markProcessed_returns [OF assms(2)]
  have cid: "the (cd_id cd) = cid" using assms(3) by simp
  have stored: "\<exists>d \<in> set (docs c1). matching uid cid d" and uniq: "unique_index c1"
  proof -
    show "\<exists>d \<in> set (docs c1). matching uid cid d"
      using r(4,5) unfolding cid by (cases b) auto
    show "unique_index c1"
    proof (cases b)
      case True
      then obtain doc where d: "docs c1 = docs c @ [doc]" "matching uid cid doc"
        and fresh: "\<forall>d \<in> set (docs c). \<not> matching uid cid d"
        using r(4) unfolding cid by blast
      from unique_index_append [OF assms(1) fresh d(2)] d(1)
      show ?thesis by (simp add: unique_index_def)
    next
      case False
      then show ?thesis using r(5) assms(1) by simp
    qed
  qed
  then obtain d where d: "d \<in> set (docs c1)" "matching uid cid d" by blast
  have one: "length (filter (matching uid cid) (docs c1)) = 1"
    using uniq d by (rule unique_index_count)
  have seen: "isProcessed c1 uid cid = Inr True"
    using one r(3) by (simp add: isProcessed_def countDocuments_def)
  have again: "markProcessed c1 now2 uid cd2 = (Inr False, c1)"
    if "schema_valid cd2" "cd_id cd2 = Some cid"
    using that stored r(3) by (intro markProcessed_duplicate) simp_all
  show ?thesis
    using one seen uniq again by blast
qed

theorem markProcessed_idempotent_witness:
  "unique_index \<lparr>docs = [], offline = False\<rparr>
   \<and> fst (markProcessed \<lparr>docs = [], offline = False\<rparr> 7 1
          \<lparr>cd_id = Some ''c1'', cd_postId = Some ''p1'', cd_username = Some ''ann'',
           cd_text = Some ''nice'', cd_reply = None, cd_replyId = None, cd_status = None\<rparr>)
       = Inr True
   \<and> length (filter (matching 1 ''c1'')
         (docs (snd (markProcessed \<lparr>docs = [], offline = False\<rparr> 7 1
            \<lparr>cd_id = Some ''c1'', cd_postId = Some ''p1'', cd_username = Some ''ann'',
             cd_text = Some ''nice'', cd_reply = None, cd_replyId = None, cd_status = None\<rparr>))))
       = 1
   \<and> isProcessed (snd (markProcessed \<lparr>docs = [], offline = False\<rparr> 7 1
          \<lparr>cd_id = Some ''c1'', cd_postId = Some ''p1'', cd_username = Some ''ann'',
           cd_text = Some ''nice'', cd_reply = None, cd_replyId = None, cd_status = None\<rparr>))
         1 ''c1'' = Inr True
   \<and> markProcessed (snd (markProcessed \<lparr>docs = [], offline = False\<rparr> 7 1
          \<lparr>cd_id = Some ''c1'', cd_postId = Some ''p1'', cd_username = Some ''ann'',
           cd_text = Some ''nice'', cd_reply = None, cd_replyId = None, cd_status = None\<rparr>))
         8 1
         \<lparr>cd_id = Some ''c1'', cd_postId = Some ''p1'', cd_username = Some ''ann'',
          cd_text = Some ''nice'', cd_reply = Some ''thanks'', cd_replyId = None,
          cd_status = Some ''reply_posted''\<rparr>
       = (Inr False,
          snd (markProcessed \<lparr>docs = [], offline = False\<rparr> 7 1
            \<lparr>cd_id = Some ''c1'', cd_postId = Some ''p1'', cd_username = Some ''ann'',
             cd_text = Some ''nice'', cd_reply = None, cd_replyId = None, cd_status = None\<rparr>))"
proof -
  define c0 where "c0 = \<lparr>docs = [], offline = False\<rparr>"
  define cd0 where
    "cd0 = \<lparr>cd_id = Some ''c1'', cd_postId = Some ''p1'', cd_username = Some ''ann'',
            cd_text = Some ''nice'', cd_reply = None, cd_replyId = None, cd_status = None\<rparr>"
  define cd1 where
    "cd1 = \<lparr>cd_id = Some ''c1'', cd_postId = Some ''p1'', cd_username = Some ''ann'',
            cd_text = Some ''nice'', cd_reply = Some ''thanks'', cd_replyId = None,
            cd_status = Some ''reply_posted''\<rparr>"
  have uniq: "unique_index c0" by (simp add: c0_def unique_index_def)
  have valid: "schema_valid cd0" "schema_valid cd1"
    by (simp_all add: cd0_def cd1_def schema_valid_def required_string_def or_default_def
        status_enum_def)
  have ids: "cd_id cd0 = Some ''c1''" "cd_id cd1 = Some ''c1''"
    by (simp_all add: cd0_def cd1_def)
  have first: "fst (markProcessed c0 7 1 cd0) = Inr True"
    using valid(1) by (simp add: markProcessed_def create_def c0_def Let_def)
  then have ret: "markProcessed c0 7 1 cd0 = (Inr True, snd (markProcessed c0 7 1 cd0))"
    by (simp add: prod_eq_iff)
  from markProcessed_idempotent [OF uniq ret ids(1), of cd1 8] valid(2) ids(2) uniq first
  show ?thesis
    unfolding c0_def cd0_def cd1_def by blast
qed

lemma isCommentProcessed_value:
  "isCommentProcessed this c cid
     = Inr (case svc_userId this of
              None \<Rightarrow> False
            | Some uid \<Rightarrow> (case isProcessed c uid cid of Inr b \<Rightarrow> b | Inl e \<Rightarrow> False))"
  by (simp add: isCommentProcessed_def split: option.splits sum.splits)

lemma isCommentProcessed_returns:
  "\<exists>b. isCommentProcessed this c cid = Inr b"
  unfolding isCommentProcessed_value by blast

lemma isProcessed_offline:
  "offline c \<Longrightarrow> isProcessed c uid cid = Inl ConnectionFailed"
  by (simp add: isProcessed_def countDocuments_def)

text \<open>
  C9. \<^verbatim>\<open>isCommentProcessed\<close> never throws. Whenever the lookup of the model throws,
  and so whenever the database is offline, it returns \<^verbatim>\<open>false\<close>, whatever is
  stored.
\<close>

theorem isCommentProcessed_swallows_failure:
  "(svc_userId this = Some uid \<and> isProcessed c uid cid = Inl err \<longrightarrow>
      isCommentProcessed this c cid = Inr False)
   \<and> (offline c \<longrightarrow> isCommentProcessed this c cid = Inr False)
   \<and> (\<exists>b. isCommentProcessed this c cid = Inr b)"
  using isCommentProcessed_returns [of this c cid] isProcessed_offline [of c _ cid]
  by (auto simp: isCommentProcessed_def split: option.splits)

theorem isCommentProcessed_swallows_failure_witness:
  "isProcessed \<lparr>docs = [\<lparr>userId = 1, commentId = ''c1'', postId = ''p1'', username = ''ann'',
                          commentText = ''nice'', replyText = None, replyId = None,
                          status = ''reply_posted'', processedAt = 7\<rparr>],
                offline = False\<rparr> 1 ''c1'' = Inr True
   \<and> isProcessed \<lparr>docs = [\<lparr>userId = 1, commentId = ''c1'', postId = ''p1'', username = ''ann'',
                          commentText = ''nice'', replyText = None, replyId = None,
                          status = ''reply_posted'', processedAt = 7\<rparr>],
                offline = True\<rparr> 1 ''c1'' = Inl ConnectionFailed
   \<and> isCommentProcessed \<lparr>svc_userId = Some 1\<rparr>
        \<lparr>docs = [\<lparr>userId = 1, commentId = ''c1'', postId = ''p1'', username = ''ann'',
                   commentText = ''nice'', replyText = None, replyId = None,
                   status = ''reply_posted'', processedAt = 7\<rparr>],
         offline = True\<rparr> ''c1'' = Inr False"
  using isCommentProcessed_swallows_failure [of "\<lparr>svc_userId = Some 1\<rparr>" 1
      "\<lparr>docs = [\<lparr>userId = 1, commentId = ''c1'', postId = ''p1'', username = ''ann'',
                   commentText = ''nice'', replyText = None, replyId = None,
                   status = ''reply_posted'', processedAt = 7\<rparr>],
         offline = True\<rparr>" "''c1''" ConnectionFailed]
  by (simp add: isProcessed_def countDocuments_def matching_def)

lemma loadAutomationState_no_stats:
  "loadAutomationState this db = Some st \<Longrightarrow> stats st = None \<and> lastCheckTime st = None"
  by (auto simp: loadAutomationState_def split: option.splits sum.splits)

text \<open>
  C8, on the code. \<^verbatim>\<open>saveAutomationState\<close> writes only \<^verbatim>\<open>isActive\<close>, and
  \<^verbatim>\<open>loadAutomationState\<close> builds its result from that flag alone: a state saved
  with the counters 5, 4, 3, 1 and a check time comes back without \<^verbatim>\<open>stats\<close> and
  with \<^verbatim>\<open>lastCheckTime = null\<close>.
\<close>

theorem saveAutomationState_drops_stats:
  "loadAutomationState \<lparr>svc_userId = Some 1\<rparr>
     (snd (saveAutomationState \<lparr>svc_userId = Some 1\<rparr>
        \<lparr>users = [1 \<mapsto> \<lparr>replyTone = ''friendly'', pollIntervalSeconds = 30,
                          maxCommentsPerCheck = 10, settings_isActive = False\<rparr>],
         users_offline = False\<rparr>
        \<lparr>isActive = Some True, lastCheckTime = Some 1000,
         stats = Some \<lparr>commentsDetected = 5, repliesGenerated = 4, repliesPosted = 3,
                       errorCount = 1\<rparr>,
         processedComments = None\<rparr>))
   = Some \<lparr>isActive = Some True, lastCheckTime = None, stats = None,
            processedComments = Some []\<rparr>"
  by (simp add: loadAutomationState_def saveAutomationState_def findById_def)

end
